theory Spec2Isabelle
  imports Complex_Main
begin

section \<open>Values, errors and dictionaries\<close>

text \<open>
  The rule engine of \<^verbatim>\<open>soa_dsl_implementation.py\<close> and the transient validator of
  \<^verbatim>\<open>corrected_tmaxfrac_analysis.py\<close>, embedded function by function.
  Python floats are modelled as reals (no rounding, no NaN, no infinities).
  A limit is \<^verbatim>\<open>Union[float, str]\<close>: a number or a text. Where the source returns
  \<^verbatim>\<open>Union[float, str, None]\<close> the model returns \<open>limit option\<close>, and \<open>None\<close> is
  Python's \<^verbatim>\<open>None\<close>, an ordinary returned value.
  Exceptions are values of \<open>py_error\<close>; a function that can raise returns
  \<open>py_error + 'a\<close>, with \<open>Inl\<close> for the exception.
\<close>

datatype limit = Num real | Str string

datatype py_error = KeyError | ValueError | TypeError | AttributeError | IllTyped

text \<open>
  A Python \<^verbatim>\<open>dict\<close> keeps its keys in insertion order and holds each key once: an
  association list with distinct keys. \<open>dict_set\<close> is \<^verbatim>\<open>d[k] = v\<close> (an existing key keeps
  its place), \<open>dict_index\<close> is \<^verbatim>\<open>d[k]\<close>, which raises \<^verbatim>\<open>KeyError\<close> on a missing key,
  \<open>dict_get\<close> is \<^verbatim>\<open>d.get(k, default)\<close>.
\<close>

type_synonym ('k, 'v) dict = "('k \<times> 'v) list"

definition dict_keys :: "('k, 'v) dict \<Rightarrow> 'k list" where
  "dict_keys d = map fst d"

definition dict_has :: "('k, 'v) dict \<Rightarrow> 'k \<Rightarrow> bool" where
  "dict_has d k = (k \<in> set (dict_keys d))"

definition dict_index :: "('k, 'v) dict \<Rightarrow> 'k \<Rightarrow> py_error + 'v" where
  "dict_index d k = (case map_of d k of None \<Rightarrow> Inl KeyError | Some v \<Rightarrow> Inr v)"

definition dict_get :: "('k, 'v) dict \<Rightarrow> 'k \<Rightarrow> 'v \<Rightarrow> 'v" where
  "dict_get d k dflt = (case map_of d k of None \<Rightarrow> dflt | Some v \<Rightarrow> v)"

fun dict_set :: "'k \<Rightarrow> 'v \<Rightarrow> ('k, 'v) dict \<Rightarrow> ('k, 'v) dict" where
  "dict_set k v [] = [(k, v)]"
| "dict_set k v ((k', v') # d) =
     (if k = k' then (k', v) # d else (k', v') # dict_set k v d)"

text \<open>
  \<^verbatim>\<open>min(xs, key=f)\<close>: the first element whose key is minimal; \<^verbatim>\<open>ValueError\<close> on an
  empty sequence. The running best is replaced only by a strictly smaller key.
\<close>

fun min_from :: "('a \<Rightarrow> real) \<Rightarrow> 'a \<Rightarrow> 'a list \<Rightarrow> 'a" where
  "min_from f best [] = best"
| "min_from f best (x # xs) = min_from f (if f x < f best then x else best) xs"

definition py_min_by :: "('a \<Rightarrow> real) \<Rightarrow> 'a list \<Rightarrow> py_error + 'a" where
  "py_min_by f xs = (case xs of [] \<Rightarrow> Inl ValueError | x # rest \<Rightarrow> Inr (min_from f x rest))"

text \<open>
  \<^verbatim>\<open>max(xs)\<close> over numbers: \<^verbatim>\<open>ValueError\<close> on an empty sequence.
\<close>

definition py_max :: "real list \<Rightarrow> py_error + real" where
  "py_max xs = (case xs of [] \<Rightarrow> Inl ValueError | x # rest \<Rightarrow> Inr (foldl max x rest))"

subsection \<open>Text\<close>

text \<open>
  \<^verbatim>\<open>str.lower()\<close> on the ASCII letters (the only ones that can turn a text into
  \<^verbatim>\<open>"no-limit"\<close>, \<^verbatim>\<open>"high"\<close>, \<^verbatim>\<open>"max"\<close>, \<^verbatim>\<open>"low"\<close> or \<^verbatim>\<open>"min"\<close>), and the substring
  test \<^verbatim>\<open>sub in s\<close>.
\<close>

definition lower_char :: "char \<Rightarrow> char" where
  "lower_char c =
     (case map_of (zip ''ABCDEFGHIJKLMNOPQRSTUVWXYZ'' ''abcdefghijklmnopqrstuvwxyz'') c of
        None \<Rightarrow> c | Some l \<Rightarrow> l)"

definition lower :: "string \<Rightarrow> string" where
  "lower s = map lower_char s"

fun contains :: "string \<Rightarrow> string \<Rightarrow> bool" where
  "contains sub [] = (sub = [])"
| "contains sub (c # cs) = (take (length sub) (c # cs) = sub \<or> contains sub cs)"

text \<open>
  \<^verbatim>\<open>float(x)\<close>. On a number it is the number. On a text it parses, and raises
  \<^verbatim>\<open>ValueError\<close> where the text is no number: the parser is a parameter \<open>pf\<close> of every
  function that calls \<^verbatim>\<open>float\<close>, \<open>None\<close> standing for the \<^verbatim>\<open>ValueError\<close>. On \<^verbatim>\<open>None\<close> it
  raises \<^verbatim>\<open>TypeError\<close>.
\<close>

definition py_float :: "(string \<Rightarrow> real option) \<Rightarrow> limit option \<Rightarrow> py_error + real" where
  "py_float pf x =
     (case x of
        None \<Rightarrow> Inl TypeError
      | Some (Num r) \<Rightarrow> Inr r
      | Some (Str s) \<Rightarrow> (case pf s of None \<Rightarrow> Inl ValueError | Some r \<Rightarrow> Inr r))"

text \<open>
  A concrete parser for the examples: plain decimal literals, an optional sign, digits
  and an optional fraction, on which it agrees with \<^verbatim>\<open>float\<close>. (Exponents, surrounding
  blanks, \<^verbatim>\<open>inf\<close> and \<^verbatim>\<open>nan\<close> are not covered; no example uses them.)
\<close>

definition digit_of :: "char \<Rightarrow> nat option" where
  "digit_of c = map_of (zip ''0123456789'' [0, 1, 2, 3, 4, 5, 6, 7, 8, 9]) c"

fun digits_value :: "nat \<Rightarrow> string \<Rightarrow> nat option" where
  "digits_value acc [] = Some acc"
| "digits_value acc (c # cs) =
     (case digit_of c of None \<Rightarrow> None | Some d \<Rightarrow> digits_value (10 * acc + d) cs)"

definition unsigned_decimal :: "string \<Rightarrow> real option" where
  "unsigned_decimal s =
     (let ip = takeWhile (\<lambda>c. c \<noteq> CHR ''.'') s;
          fp = drop 1 (dropWhile (\<lambda>c. c \<noteq> CHR ''.'') s)
      in if ip = [] \<and> fp = [] then None
         else (case (digits_value 0 ip, digits_value 0 fp) of
                 (Some i, Some f) \<Rightarrow> Some (real i + real f / 10 ^ length fp)
               | _ \<Rightarrow> None))"

definition decimal_float :: "string \<Rightarrow> real option" where
  "decimal_float s =
     (case s of
        c # rest \<Rightarrow>
          (if c = CHR ''-'' then map_option uminus (unsigned_decimal rest)
           else if c = CHR ''+'' then unsigned_decimal rest
           else unsigned_decimal s)
      | [] \<Rightarrow> None)"

section \<open>SOAParameter\<close>

datatype Severity = HIGH | MEDIUM | LOW

datatype ParameterType = VOLTAGE | CURRENT | TEMPERATURE | GENERAL

datatype ComparisonOperator =
  LESS_THAN | LESS_EQUAL | GREATER_THAN | GREATER_EQUAL | EQUAL | NOT_EQUAL

record Condition =
  cond_parameter :: string
  cond_operator :: ComparisonOperator
  cond_value :: limit
  cond_description :: string

record SOAParameter =
  name :: string
  severity :: Severity
  param_type :: ParameterType
  unit :: string
  values_tbl :: "(real, limit) dict"
  conditions :: "Condition list"
  description :: string

text \<open>
  \<^verbatim>\<open>get_value_at_tmaxfrac\<close>: the entry at the key when present; otherwise, for a
  non-empty table, the entry at the key closest to the request; otherwise \<^verbatim>\<open>None\<close>.
\<close>

definition get_value_at_tmaxfrac :: "SOAParameter \<Rightarrow> real \<Rightarrow> py_error + limit option" where
  "get_value_at_tmaxfrac p tmaxfrac =
     (if dict_has (values_tbl p) tmaxfrac then
        (case dict_index (values_tbl p) tmaxfrac of Inl e \<Rightarrow> Inl e | Inr v \<Rightarrow> Inr (Some v))
      else if values_tbl p \<noteq> [] then
        (case py_min_by (\<lambda>x. \<bar>x - tmaxfrac\<bar>) (dict_keys (values_tbl p)) of
           Inl e \<Rightarrow> Inl e
         | Inr closest \<Rightarrow>
             (case dict_index (values_tbl p) closest of Inl e \<Rightarrow> Inl e | Inr v \<Rightarrow> Inr (Some v)))
      else Inr None)"

text \<open>
  \<^verbatim>\<open>is_no_limit\<close> compares \<^verbatim>\<open>str(value).lower()\<close> with \<^verbatim>\<open>"no-limit"\<close>. The text of a
  float and of \<^verbatim>\<open>None\<close> (\<^verbatim>\<open>"None"\<close>) never lower to \<^verbatim>\<open>"no-limit"\<close>, so only a text value
  can be the sentinel.
\<close>

definition is_no_limit :: "SOAParameter \<Rightarrow> real \<Rightarrow> py_error + bool" where
  "is_no_limit p tmaxfrac =
     (case get_value_at_tmaxfrac p tmaxfrac of
        Inl e \<Rightarrow> Inl e
      | Inr v \<Rightarrow> Inr (case v of Some (Str s) \<Rightarrow> lower s = ''no-limit'' | _ \<Rightarrow> False))"

text \<open>
  \<^verbatim>\<open>validate_value\<close>: the \<^verbatim>\<open>try\<close> block catches the \<^verbatim>\<open>ValueError\<close> and \<^verbatim>\<open>TypeError\<close> of
  \<^verbatim>\<open>float(limit)\<close> and answers \<^verbatim>\<open>True\<close>.
\<close>

definition validate_value ::
  "(string \<Rightarrow> real option) \<Rightarrow> SOAParameter \<Rightarrow> real \<Rightarrow> real \<Rightarrow> py_error + bool" where
  "validate_value pf p test_value tmaxfrac =
     (case get_value_at_tmaxfrac p tmaxfrac of
        Inl e \<Rightarrow> Inl e
      | Inr lmt \<Rightarrow>
          (case is_no_limit p tmaxfrac of
             Inl e \<Rightarrow> Inl e
           | Inr True \<Rightarrow> Inr True
           | Inr False \<Rightarrow>
               (case py_float pf lmt of
                  Inl e \<Rightarrow> Inr True
                | Inr limit_val \<Rightarrow>
                    (if contains ''high'' (lower (name p)) \<or> contains ''max'' (lower (name p))
                     then Inr (test_value \<le> limit_val)
                     else if contains ''low'' (lower (name p)) \<or> contains ''min'' (lower (name p))
                     then Inr (test_value \<ge> limit_val)
                     else Inr (test_value \<le> limit_val)))))"

section \<open>DeviceRules\<close>

text \<open>
  Documents and metadata are JSON values as \<^verbatim>\<open>json.load\<close> builds them; an object is a
  \<^verbatim>\<open>dict\<close> with text keys.
\<close>

datatype json =
  JNull | JBool bool | JNum real | JStr string | JList "json list" | JObj "(string \<times> json) list"

record DeviceRules =
  device_type :: string
  subcategory :: string
  tmaxfrac_levels :: "real list"
  parameters :: "(string, SOAParameter) dict"
  metadata :: "(string, json) dict"

text \<open>
  A violation is the f-string of \<^verbatim>\<open>validate_conditions\<close>, kept as the fields it
  interpolates: the parameter name, the tested value, the severity, the limit, the unit and
  the tmaxfrac level.
\<close>

record violation =
  vio_param :: string
  vio_test_val :: real
  vio_severity :: Severity
  vio_limit :: "limit option"
  vio_unit :: string
  vio_tmaxfrac :: real

text \<open>
  Test values are passed as keyword arguments (\<^verbatim>\<open>**test_values\<close>). A call that expands a
  dictionary holding the name of one of the callee's own parameters raises \<^verbatim>\<open>TypeError\<close>
  (multiple values for the argument): \<open>kwargs_clash\<close> is that test, made on entry of each
  function that takes \<^verbatim>\<open>**test_values\<close>.
\<close>

definition kwargs_clash :: "string list \<Rightarrow> (string, 'v) dict \<Rightarrow> bool" where
  "kwargs_clash own kw = (\<exists>k \<in> set own. dict_has kw k)"

fun validate_conditions_loop ::
  "(string \<Rightarrow> real option) \<Rightarrow> real \<Rightarrow> (string, real) dict \<Rightarrow> (string, SOAParameter) dict \<Rightarrow>
   violation list \<Rightarrow> py_error + violation list" where
  "validate_conditions_loop pf tmaxfrac test_values [] violations = Inr violations"
| "validate_conditions_loop pf tmaxfrac test_values ((param_name, param) # rest) violations =
     (if dict_has test_values param_name then
        (case dict_index test_values param_name of
           Inl e \<Rightarrow> Inl e
         | Inr test_val \<Rightarrow>
             (case validate_value pf param test_val tmaxfrac of
                Inl e \<Rightarrow> Inl e
              | Inr ok \<Rightarrow>
                  (if \<not> ok then
                     (case get_value_at_tmaxfrac param tmaxfrac of
                        Inl e \<Rightarrow> Inl e
                      | Inr lmt \<Rightarrow>
                          validate_conditions_loop pf tmaxfrac test_values rest
                            (violations @
                              [\<lparr>vio_param = param_name, vio_test_val = test_val,
                                vio_severity = severity param, vio_limit = lmt,
                                vio_unit = unit param, vio_tmaxfrac = tmaxfrac\<rparr>]))
                   else validate_conditions_loop pf tmaxfrac test_values rest violations)))
      else validate_conditions_loop pf tmaxfrac test_values rest violations)"

definition validate_conditions ::
  "(string \<Rightarrow> real option) \<Rightarrow> DeviceRules \<Rightarrow> real \<Rightarrow> (string, real) dict \<Rightarrow>
   py_error + violation list" where
  "validate_conditions pf dr tmaxfrac test_values =
     (if kwargs_clash [''self'', ''tmaxfrac''] test_values then Inl TypeError
      else validate_conditions_loop pf tmaxfrac test_values (parameters dr) [])"

record param_limits =
  pl_value :: "limit option"
  pl_unit :: string
  pl_severity :: Severity
  pl_type :: ParameterType
  pl_no_limit :: bool

fun get_parameter_limits_loop ::
  "real \<Rightarrow> (string, SOAParameter) dict \<Rightarrow> (string, param_limits) dict \<Rightarrow>
   py_error + (string, param_limits) dict" where
  "get_parameter_limits_loop tmaxfrac [] limits = Inr limits"
| "get_parameter_limits_loop tmaxfrac ((param_name, param) # rest) limits =
     (case get_value_at_tmaxfrac param tmaxfrac of
        Inl e \<Rightarrow> Inl e
      | Inr v \<Rightarrow>
          (case is_no_limit param tmaxfrac of
             Inl e \<Rightarrow> Inl e
           | Inr nl \<Rightarrow>
               get_parameter_limits_loop tmaxfrac rest
                 (dict_set param_name
                    \<lparr>pl_value = v, pl_unit = unit param, pl_severity = severity param,
                     pl_type = param_type param, pl_no_limit = nl\<rparr> limits)))"

definition get_parameter_limits ::
  "DeviceRules \<Rightarrow> real \<Rightarrow> py_error + (string, param_limits) dict" where
  "get_parameter_limits dr tmaxfrac = get_parameter_limits_loop tmaxfrac (parameters dr) []"

section \<open>SOARulesEngine\<close>

record SOARulesEngine =
  devices :: "(string, DeviceRules) dict"
  global_config :: "(string, json) dict"

definition new_engine :: SOARulesEngine where
  "new_engine =
     \<lparr>devices = [],
      global_config =
        [(''version'', JStr ''1.0''),
         (''technology'', JStr ''smos10hv''),
         (''temperature_scaling'',
            JObj [(''enabled'', JBool True), (''method'', JStr ''tmaxfrac'')])]\<rparr>"

definition add_device :: "SOARulesEngine \<Rightarrow> string \<Rightarrow> DeviceRules \<Rightarrow> SOARulesEngine" where
  "add_device eng device_key rules = eng\<lparr>devices := dict_set device_key rules (devices eng)\<rparr>"

text \<open>
  \<^verbatim>\<open>check_soa_compliance\<close> returns a dictionary: \<^verbatim>\<open>{'error': ...}\<close> for an unknown device,
  the compliance record otherwise. \<^verbatim>\<open>generate_validation_report\<close> then adds
  \<^verbatim>\<open>'scenario_id'\<close> to it.
\<close>

record compliance =
  res_device :: string
  res_tmaxfrac :: real
  res_test_values :: "(string, real) dict"
  res_violations :: "violation list"
  res_compliant :: bool
  res_limits :: "(string, param_limits) dict"
  res_scenario_id :: "nat option"

datatype check_result = ErrorDict string "nat option" | ResultDict compliance

definition check_soa_compliance ::
  "(string \<Rightarrow> real option) \<Rightarrow> SOARulesEngine \<Rightarrow> string \<Rightarrow> real \<Rightarrow> (string, real) dict \<Rightarrow>
   py_error + check_result" where
  "check_soa_compliance pf eng device_key tmaxfrac test_values =
     (if kwargs_clash [''self'', ''device_key'', ''tmaxfrac''] test_values then Inl TypeError
      else if \<not> dict_has (devices eng) device_key then Inr (ErrorDict device_key None)
      else
        (case dict_index (devices eng) device_key of
           Inl e \<Rightarrow> Inl e
         | Inr device_rules \<Rightarrow>
             (case validate_conditions pf device_rules tmaxfrac test_values of
                Inl e \<Rightarrow> Inl e
              | Inr violations \<Rightarrow>
                  (case get_parameter_limits device_rules tmaxfrac of
                     Inl e \<Rightarrow> Inl e
                   | Inr limits \<Rightarrow>
                       Inr (ResultDict
                         \<lparr>res_device = device_key, res_tmaxfrac = tmaxfrac,
                          res_test_values = test_values, res_violations = violations,
                          res_compliant = (length violations = 0), res_limits = limits,
                          res_scenario_id = None\<rparr>)))))"







section \<open>The canonical document: load and export\<close>

text \<open>
  The operations the loader applies to document values. On a JSON object they are the
  dictionary operations. On other values they are what Python does there: \<^verbatim>\<open>k in x\<close> is
  an element test on a list and a substring test on a text, and raises \<^verbatim>\<open>TypeError\<close> on
  \<^verbatim>\<open>None\<close>, a boolean or a number; \<^verbatim>\<open>x[k]\<close> with a text \<open>k\<close> raises \<^verbatim>\<open>TypeError\<close> on
  everything but an object; \<^verbatim>\<open>x.get\<close> and \<^verbatim>\<open>x.items\<close> exist on objects only
  (\<^verbatim>\<open>AttributeError\<close>).
\<close>

definition py_in :: "string \<Rightarrow> json \<Rightarrow> py_error + bool" where
  "py_in k x =
     (case x of
        JObj d \<Rightarrow> Inr (dict_has d k)
      | JList xs \<Rightarrow> Inr (JStr k \<in> set xs)
      | JStr s \<Rightarrow> Inr (contains k s)
      | _ \<Rightarrow> Inl TypeError)"

definition py_getitem :: "json \<Rightarrow> string \<Rightarrow> py_error + json" where
  "py_getitem x k = (case x of JObj d \<Rightarrow> dict_index d k | _ \<Rightarrow> Inl TypeError)"

definition py_get :: "json \<Rightarrow> string \<Rightarrow> json \<Rightarrow> py_error + json" where
  "py_get x k dflt = (case x of JObj d \<Rightarrow> Inr (dict_get d k dflt) | _ \<Rightarrow> Inl AttributeError)"

definition py_items :: "json \<Rightarrow> py_error + (string, json) dict" where
  "py_items x = (case x of JObj d \<Rightarrow> Inr d | _ \<Rightarrow> Inl AttributeError)"

text \<open>
  The dataclasses store what the document holds, unchecked. The model's records follow
  the annotations of the fields (\<^verbatim>\<open>str\<close>, \<^verbatim>\<open>List[float]\<close>, \<^verbatim>\<open>Union[float, str]\<close>,
  \<^verbatim>\<open>Dict[str, Any]\<close>); a document value outside the annotation of the field it would be
  stored in is outside the model, and the model answers \<open>IllTyped\<close> there.
\<close>

definition as_str :: "json \<Rightarrow> py_error + string" where
  "as_str x = (case x of JStr s \<Rightarrow> Inr s | _ \<Rightarrow> Inl IllTyped)"

definition as_limit :: "json \<Rightarrow> py_error + limit" where
  "as_limit x = (case x of JNum r \<Rightarrow> Inr (Num r) | JStr s \<Rightarrow> Inr (Str s) | _ \<Rightarrow> Inl IllTyped)"

fun as_float_list :: "json list \<Rightarrow> py_error + real list" where
  "as_float_list [] = Inr []"
| "as_float_list (x # xs) =
     (case x of
        JNum r \<Rightarrow> (case as_float_list xs of Inl e \<Rightarrow> Inl e | Inr rs \<Rightarrow> Inr (r # rs))
      | _ \<Rightarrow> Inl IllTyped)"

definition as_levels :: "json \<Rightarrow> py_error + real list" where
  "as_levels x = (case x of JList xs \<Rightarrow> as_float_list xs | _ \<Rightarrow> Inl IllTyped)"

definition as_metadata :: "json \<Rightarrow> py_error + (string, json) dict" where
  "as_metadata x = (case x of JObj d \<Rightarrow> Inr d | _ \<Rightarrow> Inl IllTyped)"

text \<open>\<^verbatim>\<open>Severity(x)\<close> and \<^verbatim>\<open>ParameterType(x)\<close>: \<^verbatim>\<open>ValueError\<close> unless \<open>x\<close> is a member's value.\<close>

definition severity_value :: "Severity \<Rightarrow> string" where
  "severity_value s = (case s of HIGH \<Rightarrow> ''high'' | MEDIUM \<Rightarrow> ''medium'' | LOW \<Rightarrow> ''low'')"

definition parameter_type_value :: "ParameterType \<Rightarrow> string" where
  "parameter_type_value t =
     (case t of VOLTAGE \<Rightarrow> ''voltage'' | CURRENT \<Rightarrow> ''current''
              | TEMPERATURE \<Rightarrow> ''temperature'' | GENERAL \<Rightarrow> ''general'')"

definition Severity_of :: "json \<Rightarrow> py_error + Severity" where
  "Severity_of x =
     (if x = JStr ''high'' then Inr HIGH
      else if x = JStr ''medium'' then Inr MEDIUM
      else if x = JStr ''low'' then Inr LOW
      else Inl ValueError)"

definition ParameterType_of :: "json \<Rightarrow> py_error + ParameterType" where
  "ParameterType_of x =
     (if x = JStr ''voltage'' then Inr VOLTAGE
      else if x = JStr ''current'' then Inr CURRENT
      else if x = JStr ''temperature'' then Inr TEMPERATURE
      else if x = JStr ''general'' then Inr GENERAL
      else Inl ValueError)"

text \<open>
  \<^verbatim>\<open>_load_device_from_dict\<close>, block by block. \<open>load_values\<close> is the comprehension
  \<^verbatim>\<open>{float(k): v for k, v in ml_values.items()}\<close> (the keys of the document are texts);
  \<open>load_param_values\<close> is the block that fills \<^verbatim>\<open>values\<close> for one parameter;
  \<open>load_param\<close> is the construction of one \<^verbatim>\<open>SOAParameter\<close>, its arguments evaluated in
  the order they are written; \<open>load_params\<close> is the loop over
  \<^verbatim>\<open>device_data['parameters'].items()\<close> and \<open>load_device_params\<close> its guard;
  \<open>device_rules_of\<close> is the construction of the \<^verbatim>\<open>DeviceRules\<close>; \<open>load_device_from_dict\<close>
  adds it to the engine. \<open>load_global_config\<close> and \<open>load_device_rules\<close> are the two guarded
  blocks of \<^verbatim>\<open>load_from_json\<close>.
\<close>

fun load_values ::
  "(string \<Rightarrow> real option) \<Rightarrow> (string, json) dict \<Rightarrow> (real, limit) dict \<Rightarrow>
   py_error + (real, limit) dict" where
  "load_values pf [] acc = Inr acc"
| "load_values pf ((k, v) # rest) acc =
     (case pf k of
        None \<Rightarrow> Inl ValueError
      | Some r \<Rightarrow>
          (case as_limit v of
             Inl e \<Rightarrow> Inl e
           | Inr l \<Rightarrow> load_values pf rest (dict_set r l acc)))"

definition load_param_values ::
  "(string \<Rightarrow> real option) \<Rightarrow> json \<Rightarrow> py_error + (real, limit) dict" where
  "load_param_values pf param_data =
     (case py_in ''values'' param_data of
        Inl e \<Rightarrow> Inl e
      | Inr False \<Rightarrow> Inr []
      | Inr True \<Rightarrow>
          (case py_getitem param_data ''values'' of
             Inl e \<Rightarrow> Inl e
           | Inr vs \<Rightarrow>
               (case py_in ''multi_level'' vs of
                  Inl e \<Rightarrow> Inl e
                | Inr False \<Rightarrow> Inr []
                | Inr True \<Rightarrow>
                    (case py_getitem vs ''multi_level'' of
                       Inl e \<Rightarrow> Inl e
                     | Inr ml_values \<Rightarrow>
                         (case ml_values of
                            JObj d \<Rightarrow> load_values pf d []
                          | _ \<Rightarrow> Inr [])))))"

definition get_str :: "json \<Rightarrow> string \<Rightarrow> string \<Rightarrow> py_error + string" where
  "get_str x k dflt = (case py_get x k (JStr dflt) of Inl e \<Rightarrow> Inl e | Inr v \<Rightarrow> as_str v)"

definition load_param ::
  "(string \<Rightarrow> real option) \<Rightarrow> string \<Rightarrow> json \<Rightarrow> py_error + SOAParameter" where
  "load_param pf param_name param_data =
     (case load_param_values pf param_data of Inl e \<Rightarrow> Inl e | Inr vals \<Rightarrow>
      case get_str param_data ''name'' param_name of Inl e \<Rightarrow> Inl e | Inr nm \<Rightarrow>
      case py_get param_data ''severity'' (JStr ''high'') of Inl e \<Rightarrow> Inl e | Inr sv \<Rightarrow>
      case Severity_of sv of Inl e \<Rightarrow> Inl e | Inr sev \<Rightarrow>
      case py_get param_data ''type'' (JStr ''general'') of Inl e \<Rightarrow> Inl e | Inr tv \<Rightarrow>
      case ParameterType_of tv of Inl e \<Rightarrow> Inl e | Inr ty \<Rightarrow>
      case get_str param_data ''unit'' [] of Inl e \<Rightarrow> Inl e | Inr un \<Rightarrow>
      case get_str param_data ''description'' [] of Inl e \<Rightarrow> Inl e | Inr ds \<Rightarrow>
        Inr \<lparr>name = nm, severity = sev, param_type = ty, unit = un, values_tbl = vals,
             conditions = [], description = ds\<rparr>)"

fun load_params ::
  "(string \<Rightarrow> real option) \<Rightarrow> (string, json) dict \<Rightarrow> (string, SOAParameter) dict \<Rightarrow>
   py_error + (string, SOAParameter) dict" where
  "load_params pf [] acc = Inr acc"
| "load_params pf ((param_name, param_data) # rest) acc =
     (case load_param pf param_name param_data of
        Inl e \<Rightarrow> Inl e
      | Inr p \<Rightarrow> load_params pf rest (dict_set param_name p acc))"

definition load_device_params ::
  "(string \<Rightarrow> real option) \<Rightarrow> json \<Rightarrow> py_error + (string, SOAParameter) dict" where
  "load_device_params pf device_data =
     (case py_in ''parameters'' device_data of
        Inl e \<Rightarrow> Inl e
      | Inr False \<Rightarrow> Inr []
      | Inr True \<Rightarrow>
          (case py_getitem device_data ''parameters'' of
             Inl e \<Rightarrow> Inl e
           | Inr ps \<Rightarrow>
               (case py_items ps of Inl e \<Rightarrow> Inl e | Inr items \<Rightarrow> load_params pf items [])))"

definition device_rules_of ::
  "(string \<Rightarrow> real option) \<Rightarrow> json \<Rightarrow> py_error + DeviceRules" where
  "device_rules_of pf device_data =
     (case load_device_params pf device_data of Inl e \<Rightarrow> Inl e | Inr params \<Rightarrow>
      case get_str device_data ''device_type'' ''unknown'' of Inl e \<Rightarrow> Inl e | Inr dt \<Rightarrow>
      case get_str device_data ''subcategory'' ''general'' of Inl e \<Rightarrow> Inl e | Inr sc \<Rightarrow>
      case py_get device_data ''multi_level'' (JObj []) of Inl e \<Rightarrow> Inl e | Inr ml \<Rightarrow>
      case py_get ml ''tmaxfrac_levels'' (JList []) of Inl e \<Rightarrow> Inl e | Inr lv \<Rightarrow>
      case as_levels lv of Inl e \<Rightarrow> Inl e | Inr levels \<Rightarrow>
      case py_get device_data ''metadata'' (JObj []) of Inl e \<Rightarrow> Inl e | Inr md \<Rightarrow>
      case as_metadata md of Inl e \<Rightarrow> Inl e | Inr meta \<Rightarrow>
        Inr \<lparr>device_type = dt, subcategory = sc, tmaxfrac_levels = levels,
             parameters = params, metadata = meta\<rparr>)"

text \<open>
  The loader mutates the engine as it goes, so an exception leaves the engine as it was
  at the raise: the result is the exception with that engine (\<open>Inl\<close>), or the engine after
  a complete load (\<open>Inr\<close>).
\<close>

type_synonym load_result = "(py_error \<times> SOARulesEngine) + SOARulesEngine"

definition load_device_from_dict ::
  "(string \<Rightarrow> real option) \<Rightarrow> SOARulesEngine \<Rightarrow> string \<Rightarrow> json \<Rightarrow> load_result" where
  "load_device_from_dict pf eng device_key device_data =
     (case device_rules_of pf device_data of
        Inl e \<Rightarrow> Inl (e, eng)
      | Inr device_rules \<Rightarrow> Inr (add_device eng device_key device_rules))"

fun load_devices ::
  "(string \<Rightarrow> real option) \<Rightarrow> SOARulesEngine \<Rightarrow> (string, json) dict \<Rightarrow> load_result" where
  "load_devices pf eng [] = Inr eng"
| "load_devices pf eng ((device_key, device_data) # rest) =
     (case load_device_from_dict pf eng device_key device_data of
        Inl x \<Rightarrow> Inl x
      | Inr eng' \<Rightarrow> load_devices pf eng' rest)"

text \<open>
  \<^verbatim>\<open>self.global_config.update(x)\<close> with an object sets each of its entries. \<^verbatim>\<open>None\<close>,
  booleans and numbers are not iterable (\<^verbatim>\<open>TypeError\<close>); a list or a text is read by
  Python as a sequence of pairs, which the model leaves out (\<open>IllTyped\<close>).
\<close>

definition dict_update :: "('k, 'v) dict \<Rightarrow> ('k, 'v) dict \<Rightarrow> ('k, 'v) dict" where
  "dict_update d other = foldl (\<lambda>acc (k, v). dict_set k v acc) d other"

definition update_global_config :: "SOARulesEngine \<Rightarrow> json \<Rightarrow> load_result" where
  "update_global_config eng x =
     (case x of
        JObj d \<Rightarrow> Inr (eng\<lparr>global_config := dict_update (global_config eng) d\<rparr>)
      | JList xs \<Rightarrow> Inl (IllTyped, eng)
      | JStr s \<Rightarrow> Inl (IllTyped, eng)
      | _ \<Rightarrow> Inl (TypeError, eng))"

definition load_global_config :: "SOARulesEngine \<Rightarrow> json \<Rightarrow> load_result" where
  "load_global_config eng rules_data =
     (case py_in ''global_config'' rules_data of
        Inl e \<Rightarrow> Inl (e, eng)
      | Inr False \<Rightarrow> Inr eng
      | Inr True \<Rightarrow>
          (case py_getitem rules_data ''global_config'' of
             Inl e \<Rightarrow> Inl (e, eng)
           | Inr gc \<Rightarrow> update_global_config eng gc))"

definition load_device_rules ::
  "(string \<Rightarrow> real option) \<Rightarrow> SOARulesEngine \<Rightarrow> json \<Rightarrow> load_result" where
  "load_device_rules pf eng rules_data =
     (case py_in ''devices'' rules_data of
        Inl e \<Rightarrow> Inl (e, eng)
      | Inr False \<Rightarrow> Inr eng
      | Inr True \<Rightarrow>
          (case py_getitem rules_data ''devices'' of
             Inl e \<Rightarrow> Inl (e, eng)
           | Inr ds \<Rightarrow>
               (case py_items ds of
                  Inl e \<Rightarrow> Inl (e, eng)
                | Inr items \<Rightarrow> load_devices pf eng items)))"

definition load_from_json ::
  "(string \<Rightarrow> real option) \<Rightarrow> SOARulesEngine \<Rightarrow> (string, json) dict \<Rightarrow> load_result" where
  "load_from_json pf eng json_data =
     (if dict_has json_data ''soa_rules'' then
        (case dict_index json_data ''soa_rules'' of
           Inl e \<Rightarrow> Inl (e, eng)
         | Inr rules_data \<Rightarrow>
             (case load_global_config eng rules_data of
                Inl x \<Rightarrow> Inl x
              | Inr eng1 \<Rightarrow> load_device_rules pf eng1 rules_data))
      else Inr eng)"

text \<open>
  \<^verbatim>\<open>export_to_json\<close>. \<^verbatim>\<open>str(k)\<close> on a float is the parameter \<open>sf\<close>.
\<close>

definition json_of_limit :: "limit \<Rightarrow> json" where
  "json_of_limit l = (case l of Num r \<Rightarrow> JNum r | Str s \<Rightarrow> JStr s)"

definition export_values :: "(real \<Rightarrow> string) \<Rightarrow> (real, limit) dict \<Rightarrow> (string, json) dict" where
  "export_values sf vals = foldl (\<lambda>acc (k, v). dict_set (sf k) (json_of_limit v) acc) [] vals"

definition export_param :: "(real \<Rightarrow> string) \<Rightarrow> SOAParameter \<Rightarrow> json" where
  "export_param sf param =
     JObj [(''name'', JStr (name param)),
           (''severity'', JStr (severity_value (severity param))),
           (''type'', JStr (parameter_type_value (param_type param))),
           (''unit'', JStr (unit param)),
           (''values'', JObj [(''multi_level'', JObj (export_values sf (values_tbl param)))]),
           (''description'', JStr (description param))]"

definition export_params ::
  "(real \<Rightarrow> string) \<Rightarrow> (string, SOAParameter) dict \<Rightarrow> (string, json) dict" where
  "export_params sf ps =
     foldl (\<lambda>acc (param_name, param). dict_set param_name (export_param sf param) acc) [] ps"

definition export_device :: "(real \<Rightarrow> string) \<Rightarrow> DeviceRules \<Rightarrow> json" where
  "export_device sf device_rules =
     JObj [(''device_type'', JStr (device_type device_rules)),
           (''subcategory'', JStr (subcategory device_rules)),
           (''multi_level'',
              JObj [(''enabled'', JBool (length (tmaxfrac_levels device_rules) > 1)),
                    (''tmaxfrac_levels'', JList (map JNum (tmaxfrac_levels device_rules)))]),
           (''parameters'', JObj (export_params sf (parameters device_rules)))]"

definition export_devices ::
  "(real \<Rightarrow> string) \<Rightarrow> (string, DeviceRules) dict \<Rightarrow> (string, json) dict" where
  "export_devices sf ds =
     foldl (\<lambda>acc (device_key, device_rules).
              dict_set device_key (export_device sf device_rules) acc) [] ds"

definition export_to_json ::
  "(real \<Rightarrow> string) \<Rightarrow> SOARulesEngine \<Rightarrow> py_error + (string, json) dict" where
  "export_to_json sf eng =
     (let devices_data = export_devices sf (devices eng)
      in case dict_index (global_config eng) ''version'' of
           Inl e \<Rightarrow> Inl e
         | Inr ver \<Rightarrow>
             (case dict_index (global_config eng) ''technology'' of
                Inl e \<Rightarrow> Inl e
              | Inr tech \<Rightarrow>
                  Inr [(''soa_rules'',
                        JObj [(''version'', ver),
                              (''technology'', tech),
                              (''global_config'', JObj (global_config eng)),
                              (''devices'', JObj devices_data)])]))"

section \<open>Transient time limits\<close>

record TransientTimeLimit =
  ttl_voltage_limit :: limit
  ttl_max_time_fraction :: real
  ttl_description :: string

text \<open>
  \<^verbatim>\<open>TransientTimeLimit.is_violation\<close>: the \<^verbatim>\<open>try\<close> block turns a text that is no number
  into \<^verbatim>\<open>False\<close>.
\<close>

definition is_violation ::
  "(string \<Rightarrow> real option) \<Rightarrow> TransientTimeLimit \<Rightarrow> real \<Rightarrow> real \<Rightarrow> real \<Rightarrow> bool" where
  "is_violation pf l applied_voltage time_duration total_transient_time =
     (if (case ttl_voltage_limit l of Str s \<Rightarrow> lower s = ''no-limit'' | Num r \<Rightarrow> False)
      then False
      else
        (case py_float pf (Some (ttl_voltage_limit l)) of
           Inl e \<Rightarrow> False
         | Inr voltage_limit_val \<Rightarrow>
             (let voltage_violated = (applied_voltage > voltage_limit_val)
              in if \<not> voltage_violated then False
                 else if ttl_max_time_fraction l = 0 then True
                 else time_duration > ttl_max_time_fraction l * total_transient_time)))"

record TransientConstraint =
  voltage_limit :: limit
  max_time_fraction :: real
  tc_description :: string

text \<open>
  The message of \<^verbatim>\<open>validate_transient\<close>, kept as the fields the f-string interpolates:
  the limit for the critical message; the limit, the duration, the allowed time and the
  fraction for the time violation.
\<close>

datatype transient_message = Critical real | TimeViolation real real real real

definition validate_transient ::
  "(string \<Rightarrow> real option) \<Rightarrow> TransientConstraint \<Rightarrow> real \<Rightarrow> real \<Rightarrow> real \<Rightarrow>
   transient_message option" where
  "validate_transient pf c applied_voltage duration total_time =
     (case (case voltage_limit c of
              Str s \<Rightarrow> (if lower s = ''no-limit'' then None else pf s)
            | Num r \<Rightarrow> Some r) of
        None \<Rightarrow> None
      | Some voltage_limit_val \<Rightarrow>
          (if applied_voltage < voltage_limit_val then None
           else if max_time_fraction c = 0 then Some (Critical voltage_limit_val)
           else
             (let max_allowed_time = max_time_fraction c * total_time
              in if duration > max_allowed_time
                 then Some (TimeViolation voltage_limit_val duration max_allowed_time
                              (max_time_fraction c))
                 else None)))"

record TransientAwareParameter =
  tap_name :: string
  tap_severity :: string
  tap_param_type :: string
  tap_unit :: string
  transient_constraints :: "TransientConstraint list"
  tap_description :: string

text \<open>
  \<^verbatim>\<open>validate_transient_profile\<close>: a profile is a list of (voltage, start, end) triples.
  The inner loop runs over the constraints, the outer loop over the samples; each message
  is appended with the parameter's name in front.
\<close>

type_synonym profile = "(real \<times> real \<times> real) list"

fun constraints_loop ::
  "(string \<Rightarrow> real option) \<Rightarrow> string \<Rightarrow> real \<Rightarrow> real \<Rightarrow> real \<Rightarrow> TransientConstraint list \<Rightarrow>
   (string \<times> transient_message) list \<Rightarrow> (string \<times> transient_message) list" where
  "constraints_loop pf nm voltage duration total_time [] violations = violations"
| "constraints_loop pf nm voltage duration total_time (c # cs) violations =
     constraints_loop pf nm voltage duration total_time cs
       (case validate_transient pf c voltage duration total_time of
          None \<Rightarrow> violations
        | Some violation \<Rightarrow> violations @ [(nm, violation)])"

fun samples_loop ::
  "(string \<Rightarrow> real option) \<Rightarrow> TransientAwareParameter \<Rightarrow> real \<Rightarrow> profile \<Rightarrow>
   (string \<times> transient_message) list \<Rightarrow> (string \<times> transient_message) list" where
  "samples_loop pf p total_time [] violations = violations"
| "samples_loop pf p total_time ((voltage, start_time, end_time) # rest) violations =
     (let duration = end_time - start_time
      in samples_loop pf p total_time rest
           (constraints_loop pf (tap_name p) voltage duration total_time
              (transient_constraints p) violations))"

definition total_time_of :: "profile \<Rightarrow> py_error + real" where
  "total_time_of voltage_profile = py_max (map (\<lambda>(v, s, e). e) voltage_profile)"

definition validate_transient_profile ::
  "(string \<Rightarrow> real option) \<Rightarrow> TransientAwareParameter \<Rightarrow> profile \<Rightarrow>
   py_error + (string \<times> transient_message) list" where
  "validate_transient_profile pf p voltage_profile =
     (if voltage_profile = [] then Inr []
      else
        (case total_time_of voltage_profile of
           Inl e \<Rightarrow> Inl e
         | Inr total_time \<Rightarrow> Inr (samples_loop pf p total_time voltage_profile [])))"

text \<open>
  \<^verbatim>\<open>TransientSOAEngine\<close>: a device is any object with a \<^verbatim>\<open>parameters\<close> dictionary of
  transient-aware parameters.
\<close>

record TransientDevice =
  td_parameters :: "(string, TransientAwareParameter) dict"

record TransientSOAEngine =
  tdevices :: "(string, TransientDevice) dict"

record simulation =
  sim_device :: string
  sim_violations :: "(string \<times> transient_message) list"
  sim_compliant :: bool
  sim_total_violations :: nat

datatype simulation_result = SimulationError string | Simulation simulation

fun profiles_loop ::
  "(string \<Rightarrow> real option) \<Rightarrow> TransientDevice \<Rightarrow> (string, profile) dict \<Rightarrow>
   (string \<times> transient_message) list \<Rightarrow> py_error + (string \<times> transient_message) list" where
  "profiles_loop pf device [] all_violations = Inr all_violations"
| "profiles_loop pf device ((param_name, voltage_profile) # rest) all_violations =
     (if dict_has (td_parameters device) param_name then
        (case dict_index (td_parameters device) param_name of
           Inl e \<Rightarrow> Inl e
         | Inr param \<Rightarrow>
             (case validate_transient_profile pf param voltage_profile of
                Inl e \<Rightarrow> Inl e
              | Inr violations \<Rightarrow> profiles_loop pf device rest (all_violations @ violations)))
      else profiles_loop pf device rest all_violations)"

definition validate_transient_simulation ::
  "(string \<Rightarrow> real option) \<Rightarrow> TransientSOAEngine \<Rightarrow> string \<Rightarrow> (string, profile) dict \<Rightarrow>
   py_error + simulation_result" where
  "validate_transient_simulation pf eng device_key parameter_profiles =
     (if \<not> dict_has (tdevices eng) device_key then Inr (SimulationError device_key)
      else
        (case dict_index (tdevices eng) device_key of
           Inl e \<Rightarrow> Inl e
         | Inr device \<Rightarrow>
             (case profiles_loop pf device parameter_profiles [] of
                Inl e \<Rightarrow> Inl e
              | Inr all_violations \<Rightarrow>
                  Inr (Simulation
                    \<lparr>sim_device = device_key, sim_violations = all_violations,
                     sim_compliant = (length all_violations = 0),
                     sim_total_violations = length all_violations\<rparr>))))"

section \<open>Predicates of the statements and example data\<close>



definition empty_parameter :: SOAParameter where
  "empty_parameter = \<lparr>name = ''vhigh_ds_on'', severity = HIGH, param_type = VOLTAGE,
     unit = ''V'', values_tbl = [], conditions = [], description = []\<rparr>"


definition unrestricted :: "limit \<Rightarrow> bool" where
  "unrestricted l = (case l of Str s \<Rightarrow> lower s = ''no-limit'' | Num r \<Rightarrow> False)"

text \<open>
  The messages one sample adds to the result of \<^verbatim>\<open>validate_transient_profile\<close>: one pass
  over the constraints, with the sample's own duration and the profile's total time.
\<close>

definition sample_messages ::
  "(string \<Rightarrow> real option) \<Rightarrow> TransientAwareParameter \<Rightarrow> real \<Rightarrow> real \<times> real \<times> real \<Rightarrow>
   (string \<times> transient_message) list" where
  "sample_messages pf p total_time sample =
     (case sample of (v, s, e) \<Rightarrow>
        concat (map (\<lambda>c. case validate_transient pf c v (e - s) total_time of
                            None \<Rightarrow> [] | Some m \<Rightarrow> [(tap_name p, m)])
                    (transient_constraints p)))"

text \<open>
  The transient parameter of the source's example, a profile with two separate
  excursions of 10 out of 100 time units each, and one with a single excursion of 11.
\<close>

definition vhigh_ds_on_transient :: TransientAwareParameter where
  "vhigh_ds_on_transient =
     \<lparr>tap_name = ''vhigh_ds_on'', tap_severity = ''high'', tap_param_type = ''voltage'',
      tap_unit = ''V'',
      transient_constraints =
        [\<lparr>voltage_limit = Num 1.65, max_time_fraction = 0.1,
          tc_description = ''1.65V for max 10% of time''\<rparr>,
         \<lparr>voltage_limit = Num 1.71, max_time_fraction = 0.01,
          tc_description = ''1.71V for max 1% of time''\<rparr>,
         \<lparr>voltage_limit = Num 1.838, max_time_fraction = 0,
          tc_description = ''1.838V never allowed''\<rparr>],
      tap_description = []\<rparr>"



definition never_allowed :: TransientTimeLimit where
  "never_allowed = \<lparr>ttl_voltage_limit = Num 1.838, ttl_max_time_fraction = 0,
     ttl_description = ''1.838V never allowed''\<rparr>"

definition never_allowed_constraint :: TransientConstraint where
  "never_allowed_constraint = \<lparr>voltage_limit = Num 1.838, max_time_fraction = 0,
     tc_description = ''1.838V never allowed''\<rparr>"

definition no_limit_parameter :: SOAParameter where
  "no_limit_parameter = \<lparr>name = ''test_param'', severity = HIGH, param_type = VOLTAGE,
     unit = ''V'', values_tbl = [(0.1, Str ''no-limit''), (0.01, Num 1.5), (0.0, Num 1.0)],
     conditions = [], description = []\<rparr>"

definition unrestricted_constraint :: TransientConstraint where
  "unrestricted_constraint = \<lparr>voltage_limit = Str ''No-Limit'', max_time_fraction = 0,
     tc_description = []\<rparr>"

definition unrestricted_time_limit :: TransientTimeLimit where
  "unrestricted_time_limit = \<lparr>ttl_voltage_limit = Str ''No-Limit'', ttl_max_time_fraction = 0,
     ttl_description = []\<rparr>"

definition transient_engine :: TransientSOAEngine where
  "transient_engine =
     \<lparr>tdevices = [(''nmos_core'', \<lparr>td_parameters = [(''vhigh_ds_on'', vhigh_ds_on_transient)]\<rparr>)]\<rparr>"



text \<open>
  The engine, device and scenarios of \<^verbatim>\<open>demonstrate_soa_dsl\<close>, and a device whose one
  limit is a text that is neither a number nor the sentinel.
\<close>

definition vhigh_ds_on :: SOAParameter where
  "vhigh_ds_on = \<lparr>name = ''vhigh_ds_on'', severity = HIGH, param_type = VOLTAGE, unit = ''V'',
     values_tbl = [(0.1, Num 1.65), (0.01, Num 1.71), (0.0, Num 1.838)], conditions = [],
     description = ''High voltage limit for drain-source (on state)''\<rparr>"

definition vhigh_ds_off :: SOAParameter where
  "vhigh_ds_off = \<lparr>name = ''vhigh_ds_off'', severity = HIGH, param_type = VOLTAGE, unit = ''V'',
     values_tbl = [(0.1, Num 1.815), (0.01, Num 1.881), (0.0, Num 3.0)], conditions = [],
     description = ''High voltage limit for drain-source (off state)''\<rparr>"

definition mos_rules :: DeviceRules where
  "mos_rules = \<lparr>device_type = ''mos_transistor'', subcategory = ''symmetric_on_off'',
     tmaxfrac_levels = [0.1, 0.01, 0.0],
     parameters = [(''vhigh_ds_on'', vhigh_ds_on), (''vhigh_ds_off'', vhigh_ds_off)],
     metadata = []\<rparr>"

definition demo_engine :: SOARulesEngine where
  "demo_engine = add_device new_engine ''nmos_core'' mos_rules"


definition tbd_parameter :: SOAParameter where
  "tbd_parameter = \<lparr>name = ''vhigh_ds_on'', severity = HIGH, param_type = VOLTAGE, unit = ''V'',
     values_tbl = [(0.1, Str ''TBD'')], conditions = [], description = []\<rparr>"

definition tbd_engine :: SOARulesEngine where
  "tbd_engine = add_device new_engine ''nmos_core''
     \<lparr>device_type = ''mos_transistor'', subcategory = ''symmetric_on_off'',
      tmaxfrac_levels = [0.1], parameters = [(''vhigh_ds_on'', tbd_parameter)], metadata = []\<rparr>"




text \<open>
  \<^verbatim>\<open>str\<close> on the three levels of the example (Python prints them as \<^verbatim>\<open>0.1\<close>, \<^verbatim>\<open>0.01\<close> and
  \<^verbatim>\<open>0.0\<close>; no other level is exported below), and the example's device with a metadata
  entry.
\<close>

definition level_str :: "real \<Rightarrow> string" where
  "level_str r =
     (if r = 0.1 then ''0.1'' else if r = 0.01 then ''0.01'' else if r = 0 then ''0.0''
      else ''?'')"

definition documented_rules :: DeviceRules where
  "documented_rules = mos_rules\<lparr>metadata := [(''source'', JStr ''datasheet'')]\<rparr>"

definition documented_engine :: SOARulesEngine where
  "documented_engine = add_device new_engine ''nmos_core'' documented_rules"

section \<open>Properties\<close>

subsection \<open>Dictionaries and the closest key\<close>







lemma dict_index_has:
  "dict_has d k \<Longrightarrow> \<exists>v. dict_index d k = Inr v \<and> (k, v) \<in> set d"
  unfolding dict_has_def dict_keys_def dict_index_def
  by (cases "map_of d k") (auto simp: map_of_eq_None_iff dest: map_of_SomeD)


subsection \<open>Lookup by tmaxfrac level\<close>



text \<open>
  C7, as the claim states it, fails: on an empty table the lookup raises nothing and
  returns \<^verbatim>\<open>None\<close>.
\<close>

theorem empty_table_lookup_counterexample:
  "get_value_at_tmaxfrac empty_parameter 0.1 = Inr None"
  by (simp add: empty_parameter_def get_value_at_tmaxfrac_def dict_has_def dict_keys_def)

text \<open>
  C7, amended. For every parameter whose table is empty, the lookup returns \<^verbatim>\<open>None\<close> as an
  ordinary value for every request and raises no error; the parameter is then not
  unrestricted, and validating any observed value against it answers pass.
\<close>

theorem empty_table_lookup_returns_None:
  assumes "values_tbl p = []"
  shows "get_value_at_tmaxfrac p t = Inr None \<and> is_no_limit p t = Inr False \<and>
         validate_value pf p x t = Inr True"
proof -
  have g: "get_value_at_tmaxfrac p t = Inr None"
    using assms by (simp add: get_value_at_tmaxfrac_def dict_has_def dict_keys_def)
  then have n: "is_no_limit p t = Inr False" by (simp add: is_no_limit_def)
  have "validate_value pf p x t = Inr True"
    using g n by (simp add: validate_value_def py_float_def)
  then show ?thesis using g n by simp
qed

theorem empty_table_lookup_returns_None_witness:
  "values_tbl empty_parameter = [] \<and>
   get_value_at_tmaxfrac empty_parameter 0.1 = Inr None \<and>
   is_no_limit empty_parameter 0.1 = Inr False \<and>
   validate_value decimal_float empty_parameter 999 0.1 = Inr True"
proof -
  have h: "values_tbl empty_parameter = []" by (simp add: empty_parameter_def)
  show ?thesis
    using h empty_table_lookup_returns_None[OF h, of "0.1" decimal_float 999] by simp
qed

subsection \<open>The transient validator\<close>

lemma constraints_loop_append:
  "constraints_loop pf nm v d T cs acc =
     acc @ concat (map (\<lambda>c. case validate_transient pf c v d T of
                               None \<Rightarrow> [] | Some m \<Rightarrow> [(nm, m)]) cs)"
  by (induction cs arbitrary: acc) (simp_all split: option.splits)

lemma samples_loop_append:
  "samples_loop pf p T prof acc = acc @ concat (map (sample_messages pf p T) prof)"
proof (induction prof arbitrary: acc)
  case Nil
  show ?case by simp
next
  case (Cons x xs)
  obtain v s e where x: "x = (v, s, e)" by (cases x) auto
  show ?case
    by (simp add: x Cons.IH constraints_loop_append[of pf "tap_name p" v "e - s" T _ acc]
        sample_messages_def)
qed






text \<open>
  C2 holds for \<^verbatim>\<open>TransientConstraint.validate_transient\<close> and fails for
  \<^verbatim>\<open>TransientTimeLimit.is_violation\<close>, which compares with \<^verbatim>\<open>>\<close>: for the limit 1.838 V
  with time fraction 0, a sample at exactly 1.838 V is no violation there, while
  \<^verbatim>\<open>validate_transient\<close> reports it as critical. Above the threshold (1.85 V) both agree.
  The same holds at every numeric threshold: a sample that exactly meets it is passed by
  \<^verbatim>\<open>is_violation\<close> and reported by \<^verbatim>\<open>validate_transient\<close>.
\<close>

theorem is_violation_misses_sample_at_threshold:
  "is_violation decimal_float never_allowed 1.838 0.1 100 = False \<and>
   validate_transient decimal_float never_allowed_constraint 1.838 0.1 100 = Some (Critical 1.838) \<and>
   is_violation decimal_float never_allowed 1.85 0.1 100 = True \<and>
   validate_transient decimal_float never_allowed_constraint 1.85 0.1 100 = Some (Critical 1.838) \<and>
   is_violation pf \<lparr>ttl_voltage_limit = Num thr, ttl_max_time_fraction = 0,
       ttl_description = ds\<rparr> thr dur T = False \<and>
   validate_transient pf \<lparr>voltage_limit = Num thr, max_time_fraction = 0,
       tc_description = ds\<rparr> thr dur T = Some (Critical thr)"
  by (simp add: is_violation_def validate_transient_def never_allowed_def
      never_allowed_constraint_def py_float_def)

lemma sample_messages_filter:
  "sample_messages pf (tp\<lparr>transient_constraints :=
       filter (\<lambda>c. \<not> unrestricted (voltage_limit c)) (transient_constraints tp)\<rparr>) T =
   sample_messages pf tp T"
proof
  fix x :: "real \<times> real \<times> real"
  obtain v s e where x: "x = (v, s, e)" by (cases x) auto
  have u: "\<And>c. unrestricted (voltage_limit c) \<Longrightarrow> validate_transient pf c v (e - s) T = None"
    by (auto simp: unrestricted_def validate_transient_def split: limit.splits)
  have "\<And>cs. concat (map (\<lambda>c. case validate_transient pf c v (e - s) T of
                            None \<Rightarrow> [] | Some m \<Rightarrow> [(tap_name tp, m)])
                    (filter (\<lambda>c. \<not> unrestricted (voltage_limit c)) cs)) =
        concat (map (\<lambda>c. case validate_transient pf c v (e - s) T of
                            None \<Rightarrow> [] | Some m \<Rightarrow> [(tap_name tp, m)]) cs)"
  proof -
    fix cs show "?thesis cs" by (induction cs) (simp_all add: u)
  qed
  then show "sample_messages pf (tp\<lparr>transient_constraints :=
       filter (\<lambda>c. \<not> unrestricted (voltage_limit c)) (transient_constraints tp)\<rparr>) T x =
   sample_messages pf tp T x"
    by (simp add: sample_messages_def x cong: option.case_cong)
qed

text \<open>
  C6. An unrestricted threshold satisfies every query: when the lookup resolves to the
  sentinel, \<^verbatim>\<open>validate_value\<close> passes for every observed value; a transient constraint or
  time limit whose threshold is the sentinel never reports a violation; and the result of
  validating a profile is the same as without the unrestricted constraints.
\<close>

theorem unrestricted_satisfies_every_query:
  "(get_value_at_tmaxfrac p t = Inr (Some l) \<and> unrestricted l \<longrightarrow>
      is_no_limit p t = Inr True \<and> validate_value pf p x t = Inr True) \<and>
   (unrestricted (voltage_limit c) \<longrightarrow> validate_transient pf c v d T = None) \<and>
   (unrestricted (ttl_voltage_limit ttl) \<longrightarrow> \<not> is_violation pf ttl v d T) \<and>
   validate_transient_profile pf tp prof =
     validate_transient_profile pf
       (tp\<lparr>transient_constraints :=
             filter (\<lambda>c. \<not> unrestricted (voltage_limit c)) (transient_constraints tp)\<rparr>) prof"
proof (intro conjI impI)
  assume a: "get_value_at_tmaxfrac p t = Inr (Some l) \<and> unrestricted l"
  then show n: "is_no_limit p t = Inr True"
    by (auto simp: is_no_limit_def unrestricted_def split: limit.splits)
  show "validate_value pf p x t = Inr True" using a n by (simp add: validate_value_def)
next
  assume "unrestricted (voltage_limit c)"
  then show "validate_transient pf c v d T = None"
    by (auto simp: unrestricted_def validate_transient_def split: limit.splits)
next
  assume "unrestricted (ttl_voltage_limit ttl)"
  then show "\<not> is_violation pf ttl v d T"
    by (auto simp: unrestricted_def is_violation_def split: limit.splits)
next
  show "validate_transient_profile pf tp prof =
     validate_transient_profile pf
       (tp\<lparr>transient_constraints :=
             filter (\<lambda>c. \<not> unrestricted (voltage_limit c)) (transient_constraints tp)\<rparr>) prof"
    by (simp add: validate_transient_profile_def samples_loop_append sample_messages_filter
        split: sum.splits)
qed

theorem unrestricted_satisfies_every_query_witness:
  "get_value_at_tmaxfrac no_limit_parameter 0.1 = Inr (Some (Str ''no-limit'')) \<and>
   unrestricted (Str ''no-limit'') \<and>
   validate_value decimal_float no_limit_parameter 999 0.1 = Inr True \<and>
   validate_value decimal_float no_limit_parameter (- 1000000) 0.1 = Inr True \<and>
   unrestricted (voltage_limit unrestricted_constraint) \<and>
   validate_transient decimal_float unrestricted_constraint 1000000 100 100 = None \<and>
   unrestricted (ttl_voltage_limit unrestricted_time_limit) \<and>
   \<not> is_violation decimal_float unrestricted_time_limit 1000000 100 100"
proof -
  have g: "get_value_at_tmaxfrac no_limit_parameter 0.1 = Inr (Some (Str ''no-limit''))"
    by (simp add: no_limit_parameter_def get_value_at_tmaxfrac_def dict_has_def dict_keys_def
        dict_index_def)
  have u: "unrestricted (Str ''no-limit'')"
    by (simp add: unrestricted_def lower_def lower_char_def)
  have uc: "unrestricted (voltage_limit unrestricted_constraint)"
    by (simp add: unrestricted_def unrestricted_constraint_def lower_def lower_char_def)
  have ul: "unrestricted (ttl_voltage_limit unrestricted_time_limit)"
    by (simp add: unrestricted_def unrestricted_time_limit_def lower_def lower_char_def)
  note t1 = unrestricted_satisfies_every_query[THEN conjunct1, rule_format]
  note t2 = unrestricted_satisfies_every_query[THEN conjunct2, THEN conjunct1, rule_format]
  note t3 = unrestricted_satisfies_every_query[THEN conjunct2, THEN conjunct2, THEN conjunct1,
      rule_format]
  have v1: "validate_value decimal_float no_limit_parameter 999 0.1 = Inr True"
    using t1[OF conjI[OF g u]] by (rule conjunct2)
  have v2: "validate_value decimal_float no_limit_parameter (- 1000000) 0.1 = Inr True"
    using t1[OF conjI[OF g u]] by (rule conjunct2)
  have v3: "validate_transient decimal_float unrestricted_constraint 1000000 100 100 = None"
    by (rule t2[OF uc])
  have v4: "\<not> is_violation decimal_float unrestricted_time_limit 1000000 100 100"
    by (rule t3[OF ul])
  show ?thesis by (intro conjI g u v1 v2 uc v3 ul v4)
qed

lemma profiles_loop_all_empty:
  "\<forall>(n, prof) \<in> set profiles. prof = [] \<Longrightarrow> profiles_loop pf device profiles acc = Inr acc"
proof (induction profiles)
  case Nil
  show ?case by simp
next
  case (Cons x xs)
  obtain n prof where x: "x = (n, prof)" by (cases x) auto
  have e: "prof = []" using Cons.prems x by simp
  have r: "profiles_loop pf device xs acc = Inr acc" using Cons by simp
  show ?case
    by (simp add: x e r validate_transient_profile_def dict_index_def dict_has_def dict_keys_def
        map_of_eq_None_iff split: option.splits)
qed

lemma dict_index_has':
  "dict_has d k \<Longrightarrow> \<exists>v. dict_index d k = Inr v"
  unfolding dict_has_def dict_keys_def dict_index_def
  by (cases "map_of d k") (auto simp: map_of_eq_None_iff)

text \<open>
  C10. Validating an empty profile returns the empty list of violations, without
  evaluating the total time (\<^verbatim>\<open>max\<close> of an empty sequence would raise \<^verbatim>\<open>ValueError\<close>); so
  a simulation check of a known device whose supplied profiles are all empty reports
  compliant, with no violation.
\<close>

theorem empty_profile_is_compliant:
  "total_time_of [] = Inl ValueError \<and>
   validate_transient_profile pf p [] = Inr [] \<and>
   (dict_has (tdevices eng) device_key \<and> (\<forall>(n, prof) \<in> set profiles. prof = []) \<longrightarrow>
      validate_transient_simulation pf eng device_key profiles =
        Inr (Simulation \<lparr>sim_device = device_key, sim_violations = [], sim_compliant = True,
                          sim_total_violations = 0\<rparr>))"
proof (intro conjI impI)
  show "total_time_of [] = Inl ValueError" by (simp add: total_time_of_def py_max_def)
  show "validate_transient_profile pf p [] = Inr []" by (simp add: validate_transient_profile_def)
next
  assume a: "dict_has (tdevices eng) device_key \<and> (\<forall>(n, prof) \<in> set profiles. prof = [])"
  then have dh: "dict_has (tdevices eng) device_key"
    and ae: "\<forall>(n, prof) \<in> set profiles. prof = []" by blast+
  from dict_index_has'[OF dh] obtain device where
    d: "dict_index (tdevices eng) device_key = Inr device" by blast
  have "profiles_loop pf device profiles [] = Inr []"
    by (rule profiles_loop_all_empty[OF ae])
  then show "validate_transient_simulation pf eng device_key profiles =
        Inr (Simulation \<lparr>sim_device = device_key, sim_violations = [], sim_compliant = True,
                          sim_total_violations = 0\<rparr>)"
    using dh d by (simp add: validate_transient_simulation_def)
qed

theorem empty_profile_is_compliant_witness:
  "dict_has (tdevices transient_engine) ''nmos_core'' \<and>
   validate_transient_profile decimal_float vhigh_ds_on_transient [] = Inr [] \<and>
   validate_transient_simulation decimal_float transient_engine ''nmos_core''
       [(''vhigh_ds_on'', []), (''vhigh_ds_off'', [])] =
     Inr (Simulation \<lparr>sim_device = ''nmos_core'', sim_violations = [], sim_compliant = True,
                       sim_total_violations = 0\<rparr>)"
proof -
  have h1: "dict_has (tdevices transient_engine) ''nmos_core''"
    by (simp add: transient_engine_def dict_has_def dict_keys_def)
  have h2: "\<forall>(n, prof) \<in> set [(''vhigh_ds_on'', []), (''vhigh_ds_off'', ([]::profile))]. prof = []"
    by simp
  note t = empty_profile_is_compliant[of decimal_float vhigh_ds_on_transient
      transient_engine "''nmos_core''" "[(''vhigh_ds_on'', []), (''vhigh_ds_off'', [])]"]
  have a: "validate_transient_profile decimal_float vhigh_ds_on_transient [] = Inr []"
    by (rule t[THEN conjunct2, THEN conjunct1])
  have b: "validate_transient_simulation decimal_float transient_engine ''nmos_core''
       [(''vhigh_ds_on'', []), (''vhigh_ds_off'', [])] =
     Inr (Simulation \<lparr>sim_device = ''nmos_core'', sim_violations = [], sim_compliant = True,
                       sim_total_violations = 0\<rparr>)"
    by (rule t[THEN conjunct2, THEN conjunct2, rule_format, OF conjI[OF h1 h2]])
  show ?thesis by (intro conjI h1 a b)
qed

subsection \<open>Static validation and the validation report\<close>














text \<open>
  C8, as the claim states it, fails: for a limit that is neither a number nor the
  sentinel, \<^verbatim>\<open>validate_value\<close> returns the plain \<^verbatim>\<open>True\<close> that a satisfied numeric limit
  returns, and the result of \<^verbatim>\<open>check_soa_compliance\<close>, shown here in full, reports
  compliant with no violation and has no field that flags the skipped check.
\<close>

theorem unvalidatable_threshold_counterexample:
  "validate_value decimal_float tbd_parameter 999 0.1 = Inr True \<and>
   validate_value decimal_float vhigh_ds_on 1.5 0.1 = Inr True \<and>
   check_soa_compliance decimal_float tbd_engine ''nmos_core'' 0.1 [(''vhigh_ds_on'', 999)] =
     Inr (ResultDict
       \<lparr>res_device = ''nmos_core'', res_tmaxfrac = 0.1,
        res_test_values = [(''vhigh_ds_on'', 999)], res_violations = [],
        res_compliant = True,
        res_limits = [(''vhigh_ds_on'',
          \<lparr>pl_value = Some (Str ''TBD''), pl_unit = ''V'', pl_severity = HIGH,
           pl_type = VOLTAGE, pl_no_limit = False\<rparr>)],
        res_scenario_id = None\<rparr>)"
  by code_simp

text \<open>
  C8, amended. For every validation query whose resolved threshold is a text that is
  neither a number nor the sentinel, \<^verbatim>\<open>validate_value\<close> passes by default, returning the
  plain \<^verbatim>\<open>True\<close>; \<^verbatim>\<open>validate_conditions\<close> records no violation for the parameter and goes
  on exactly as if the parameter had not been there, so nothing in the result marks the
  threshold as unvalidatable.
\<close>

theorem unvalidatable_threshold_passes_unflagged:
  assumes g: "get_value_at_tmaxfrac p t = Inr (Some (Str s))"
    and nu: "\<not> unrestricted (Str s)"
    and np: "pf s = None"
  shows "validate_value pf p x t = Inr True \<and>
         validate_conditions_loop pf t tv ((n, p) # rest) vs =
           validate_conditions_loop pf t tv rest vs"
proof -
  have nl: "is_no_limit p t = Inr False" using g nu by (simp add: is_no_limit_def unrestricted_def)
  have v: "\<And>x. validate_value pf p x t = Inr True"
    using g nl np by (simp add: validate_value_def py_float_def)
  have "validate_conditions_loop pf t tv ((n, p) # rest) vs =
           validate_conditions_loop pf t tv rest vs"
  proof (cases "dict_has tv n")
    case False
    then show ?thesis by simp
  next
    case True
    from dict_index_has[OF True] obtain tval where "dict_index tv n = Inr tval" by blast
    then show ?thesis using True v[of tval] by simp
  qed
  then show ?thesis using v by simp
qed

theorem unvalidatable_threshold_passes_unflagged_witness:
  "get_value_at_tmaxfrac tbd_parameter 0.1 = Inr (Some (Str ''TBD'')) \<and>
   \<not> unrestricted (Str ''TBD'') \<and> decimal_float ''TBD'' = None \<and>
   validate_value decimal_float tbd_parameter 999 0.1 = Inr True \<and>
   validate_conditions_loop decimal_float 0.1 [(''vhigh_ds_on'', 999)]
       [(''vhigh_ds_on'', tbd_parameter)] [] = Inr []"
proof -
  have h1: "get_value_at_tmaxfrac tbd_parameter 0.1 = Inr (Some (Str ''TBD''))" by code_simp
  have h2: "\<not> unrestricted (Str ''TBD'')" by code_simp
  have h3: "decimal_float ''TBD'' = None" by code_simp
  note t = unvalidatable_threshold_passes_unflagged[where pf = decimal_float
      and p = tbd_parameter and t = "0.1" and s = "''TBD''" and x = 999
      and tv = "[(''vhigh_ds_on'', 999)]" and n = "''vhigh_ds_on''" and rest = "[]"
      and vs = "[]", OF h1 h2 h3]
  have a: "validate_value decimal_float tbd_parameter 999 0.1 = Inr True"
    by (rule t[THEN conjunct1])
  have b: "validate_conditions_loop decimal_float 0.1 [(''vhigh_ds_on'', 999)]
       [(''vhigh_ds_on'', tbd_parameter)] [] = Inr []"
    using t[THEN conjunct2] by simp
  show ?thesis by (intro conjI h1 h2 h3 a b)
qed

subsection \<open>Loading and exporting the canonical document\<close>















lemma export_device_no_metadata:
  "py_get (export_device sf dr) ''metadata'' (JObj []) = Inr (JObj [])"
  by (simp add: export_device_def py_get_def dict_get_def)

text \<open>
  C4 fails on the metadata: \<^verbatim>\<open>export_to_json\<close> writes no \<^verbatim>\<open>metadata\<close> entry, although
  \<^verbatim>\<open>_load_device_from_dict\<close> reads one. So the record exported for any device has no
  metadata, a device loaded from it has empty metadata, and the example device's metadata
  comes back empty. Every other field of the example survives the round trip, and the
  example without metadata comes back unchanged.
\<close>

theorem round_trip_loses_metadata:
  "py_get (export_device sf dr) ''metadata'' (JObj []) = Inr (JObj []) \<and>
   (case device_rules_of pf (export_device sf dr) of
      Inl e \<Rightarrow> True | Inr dr' \<Rightarrow> metadata dr' = []) \<and>
   metadata documented_rules = [(''source'', JStr ''datasheet'')] \<and>
   (case export_to_json level_str documented_engine of
      Inl e \<Rightarrow> None
    | Inr doc \<Rightarrow> Some (load_from_json decimal_float new_engine doc)) =
     Some (Inr (add_device new_engine ''nmos_core'' (documented_rules\<lparr>metadata := []\<rparr>))) \<and>
   (case export_to_json level_str demo_engine of
      Inl e \<Rightarrow> None
    | Inr doc \<Rightarrow> Some (load_from_json decimal_float new_engine doc)) =
     Some (Inr demo_engine)"
proof -
  have a: "py_get (export_device sf dr) ''metadata'' (JObj []) = Inr (JObj [])"
    by (rule export_device_no_metadata)
  have b: "(case device_rules_of pf (export_device sf dr) of
      Inl e \<Rightarrow> True | Inr dr' \<Rightarrow> metadata dr' = [])"
    by (auto simp: device_rules_of_def export_device_no_metadata as_metadata_def
        split: sum.splits)
  have c: "metadata documented_rules = [(''source'', JStr ''datasheet'')]"
    by code_simp
  have d: "(case export_to_json level_str documented_engine of
      Inl e \<Rightarrow> None
    | Inr doc \<Rightarrow> Some (load_from_json decimal_float new_engine doc)) =
     Some (Inr (add_device new_engine ''nmos_core'' (documented_rules\<lparr>metadata := []\<rparr>)))"
    by code_simp
  have e: "(case export_to_json level_str demo_engine of
      Inl e \<Rightarrow> None
    | Inr doc \<Rightarrow> Some (load_from_json decimal_float new_engine doc)) =
     Some (Inr demo_engine)"
    by code_simp
  show ?thesis by (intro conjI a b c d e)
qed

end
